theory Spec2Isabelle
  imports Complex_Main
begin

section \<open>Python values used by \<open>config/settings.py\<close>\<close>

text \<open>
  Strings are byte strings: an ASCII character is one \<^typ>\<open>char\<close>, a character beyond
  ASCII is its UTF-8 bytes. \<open>lower\<close> and \<open>upper\<close> change the ASCII letters and leave
  every other byte as it is. No string holding a byte beyond ASCII is lowered to
  \<open>openai\<close>, \<open>anthropic\<close>, \<open>auto\<close> or \<open>true\<close>, here or in Python, so every
  comparison of the source on a lowered string is decided as in the source.
\<close>

definition ascii_uppercase :: string where
  "ascii_uppercase = ''ABCDEFGHIJKLMNOPQRSTUVWXYZ''"

definition ascii_lowercase :: string where
  "ascii_lowercase = ''abcdefghijklmnopqrstuvwxyz''"

definition lower_char :: "char \<Rightarrow> char" where
  "lower_char c =
     (case map_of (zip ascii_uppercase ascii_lowercase) c of None \<Rightarrow> c | Some d \<Rightarrow> d)"

definition upper_char :: "char \<Rightarrow> char" where
  "upper_char c =
     (case map_of (zip ascii_lowercase ascii_uppercase) c of None \<Rightarrow> c | Some d \<Rightarrow> d)"

definition lower :: "string \<Rightarrow> string" where
  "lower s = map lower_char s"

definition upper :: "string \<Rightarrow> string" where
  "upper s = map upper_char s"

text \<open>
  \<open>str.upper\<close> on every string. On an ASCII string it is \<open>upper\<close>. Python maps some
  characters beyond ASCII to ASCII capitals (the dotless i to \<open>I\<close>, the long s to
  \<open>S\<close>, the sharp s to \<open>SS\<close>); what \<open>str.upper\<close> returns on a string that holds a
  character beyond ASCII is not computed here and is the parameter \<open>beyond\<close>.
\<close>

definition isascii :: "string \<Rightarrow> bool" where
  "isascii s = list_all (\<lambda>c. \<not> digit7 c) s"

definition str_upper :: "(string \<Rightarrow> string) \<Rightarrow> string \<Rightarrow> string" where
  "str_upper beyond s = (if isascii s then upper s else beyond s)"

text \<open>
  The truth value of an \<open>Optional[str]\<close>, as \<open>bool(x)\<close>, \<open>not x\<close> and \<open>if x\<close> read it:
  \<open>None\<close> and the empty string are false.
\<close>

definition truthy :: "string option \<Rightarrow> bool" where
  "truthy x = (case x of None \<Rightarrow> False | Some s \<Rightarrow> s \<noteq> [])"

text \<open>\<open>x or d\<close> for an \<open>Optional[str]\<close> \<open>x\<close> and a string \<open>d\<close>.\<close>

definition py_or :: "string option \<Rightarrow> string \<Rightarrow> string" where
  "py_or x d = (case x of None \<Rightarrow> d | Some s \<Rightarrow> if s \<noteq> [] then s else d)"

text \<open>
  The exceptions of the module, each with its message (\<open>str(e)\<close>). Every \<open>raise\<close> of the
  source is a \<open>ValueError\<close>; \<open>TypeError\<close> and \<open>AttributeError\<close> are raised by the
  interpreter (a keyword argument given twice, \<open>getattr\<close> on a missing name);
  \<open>ExternalError\<close> stands for any \<open>Exception\<close> raised by the chat-model client.
\<close>

datatype exn =
    ValueError string
  | TypeError string
  | AttributeError string
  | ExternalError string


section \<open>The process environment and the \<open>Settings\<close> class\<close>

type_synonym environ = "string \<rightharpoonup> string"

definition getenv :: "environ \<Rightarrow> string \<Rightarrow> string option" where
  "getenv env k = env k"

definition getenv_default :: "environ \<Rightarrow> string \<Rightarrow> string \<Rightarrow> string" where
  "getenv_default env k d = (case env k of None \<Rightarrow> d | Some v \<Rightarrow> v)"

record Settings =
  OPENAI_API_KEY :: "string option"
  ANTHROPIC_API_KEY :: "string option"
  LANGCHAIN_API_KEY :: "string option"
  LANGCHAIN_TRACING_V2 :: bool
  LANGCHAIN_PROJECT :: string
  DEFAULT_OPENAI_MODEL :: string
  DEFAULT_ANTHROPIC_MODEL :: string
  DEBUG :: bool
  LOG_LEVEL :: string

text \<open>
  The class body of \<open>Settings\<close>, evaluated once when the module is imported, on the
  environment as \<open>load_dotenv()\<close> left it.
\<close>

definition load_settings :: "environ \<Rightarrow> Settings" where
  "load_settings env =
     \<lparr> OPENAI_API_KEY = getenv env ''OPENAI_API_KEY'',
       ANTHROPIC_API_KEY = getenv env ''ANTHROPIC_API_KEY'',
       LANGCHAIN_API_KEY = getenv env ''LANGCHAIN_API_KEY'',
       LANGCHAIN_TRACING_V2 = (lower (getenv_default env ''LANGCHAIN_TRACING_V2'' ''false'') = ''true''),
       LANGCHAIN_PROJECT = getenv_default env ''LANGCHAIN_PROJECT'' ''langchain-lab'',
       DEFAULT_OPENAI_MODEL = getenv_default env ''DEFAULT_OPENAI_MODEL'' ''gpt-3.5-turbo'',
       DEFAULT_ANTHROPIC_MODEL =
         getenv_default env ''DEFAULT_ANTHROPIC_MODEL'' ''claude-3-sonnet-20240229'',
       DEBUG = (lower (getenv_default env ''DEBUG'' ''false'') = ''true''),
       LOG_LEVEL = getenv_default env ''LOG_LEVEL'' ''INFO'' \<rparr>"

subsection \<open>\<open>Settings.validate_api_keys\<close>\<close>

definition msg_no_provider_key :: string where
  "msg_no_provider_key =
     ''At least one of OPENAI_API_KEY or ANTHROPIC_API_KEY must be set. '' @
     ''Please check your .env file.''"

definition validate_api_keys :: "Settings \<Rightarrow> exn + (string \<rightharpoonup> bool)" where
  "validate_api_keys cls =
     (let status = [''openai'' \<mapsto> truthy (OPENAI_API_KEY cls),
                    ''anthropic'' \<mapsto> truthy (ANTHROPIC_API_KEY cls),
                    ''langsmith'' \<mapsto> truthy (LANGCHAIN_API_KEY cls)]
      in if \<not> truthy (OPENAI_API_KEY cls) \<and> \<not> truthy (ANTHROPIC_API_KEY cls)
         then Inl (ValueError msg_no_provider_key)
         else Inr status)"

subsection \<open>\<open>Settings.setup_logging\<close> and the import of the module\<close>

text \<open>
  The part of Python's \<open>logging\<close> module that \<open>setup_logging\<close> reaches. The name it
  looks up is a result of \<open>str.upper\<close>, and the names of the module that \<open>str.upper\<close>
  can return are the eight level names, \<open>BASIC_FORMAT\<close> (a string) and \<open>_STYLES\<close>
  (a dictionary). \<open>logging_levels\<close> is also the table \<open>_nameToLevel\<close> that
  \<open>_checkLevel\<close> reads.
\<close>

datatype pyobj = PyInt int | PyStr string | PyDict

definition logging_levels :: "(string \<times> int) list" where
  "logging_levels =
     [(''CRITICAL'', 50), (''FATAL'', 50), (''ERROR'', 40), (''WARNING'', 30),
      (''WARN'', 30), (''INFO'', 20), (''DEBUG'', 10), (''NOTSET'', 0)]"

definition BASIC_FORMAT :: string where
  "BASIC_FORMAT = ''%(levelname)s:%(name)s:%(message)s''"

definition msg_no_attribute :: "string \<Rightarrow> string" where
  "msg_no_attribute name = ''module 'logging' has no attribute '' @ [CHR 0x27] @ name @ [CHR 0x27]"

definition logging_getattr :: "string \<Rightarrow> exn + pyobj" where
  "logging_getattr name =
     (case map_of logging_levels name of
        Some level \<Rightarrow> Inr (PyInt level)
      | None \<Rightarrow>
          if name = ''BASIC_FORMAT'' then Inr (PyStr BASIC_FORMAT)
          else if name = ''_STYLES'' then Inr PyDict
          else Inl (AttributeError (msg_no_attribute name)))"

text \<open>
  \<open>logging._checkLevel\<close>: an integer is a level, a string is one when \<open>_nameToLevel\<close>
  has it, anything else is a \<open>TypeError\<close> (its message without the \<open>repr\<close> of the
  value, which Python appends).
\<close>

definition msg_unknown_level :: "string \<Rightarrow> string" where
  "msg_unknown_level level = ''Unknown level: '' @ [CHR 0x27] @ level @ [CHR 0x27]"

definition msg_level_type :: string where
  "msg_level_type = ''Level not an integer or a valid string''"

definition checkLevel :: "pyobj \<Rightarrow> exn + int" where
  "checkLevel level =
     (case level of
        PyInt n \<Rightarrow> Inr n
      | PyStr name \<Rightarrow>
          (case map_of logging_levels name of
             None \<Rightarrow> Inl (ValueError (msg_unknown_level name))
           | Some n \<Rightarrow> Inr n)
      | PyDict \<Rightarrow> Inl (TypeError msg_level_type))"

text \<open>
  \<open>logging.basicConfig(level=..., format=...)\<close>. When the root logger already has
  handlers the call does nothing and reads no argument. Otherwise it installs a stream
  handler with the format, a constant of the call that is a valid format, and sets the
  level of the root logger through \<open>_checkLevel\<close>. The result is the level it set, if
  it set one.
\<close>

definition basicConfig :: "bool \<Rightarrow> pyobj \<Rightarrow> exn + int option" where
  "basicConfig root_has_handlers level =
     (if root_has_handlers then Inr None
      else case checkLevel level of Inl e \<Rightarrow> Inl e | Inr n \<Rightarrow> Inr (Some n))"

text \<open>
  \<open>setup_logging\<close>: the argument \<open>getattr(logging, cls.LOG_LEVEL.upper())\<close> is evaluated
  first, then \<open>basicConfig\<close> is called.
\<close>

definition setup_logging :: "(string \<Rightarrow> string) \<Rightarrow> bool \<Rightarrow> Settings \<Rightarrow> exn + int option" where
  "setup_logging beyond root_has_handlers cls =
     (case logging_getattr (str_upper beyond (LOG_LEVEL cls)) of
        Inl e \<Rightarrow> Inl e
      | Inr level \<Rightarrow> basicConfig root_has_handlers level)"

text \<open>
  Importing the module: the class body, then \<open>Settings.setup_logging()\<close> on the last
  line. The result is the settings and the level set on the root logger, or the
  exception that aborts the import.
\<close>

definition import_settings ::
  "(string \<Rightarrow> string) \<Rightarrow> bool \<Rightarrow> environ \<Rightarrow> exn + (Settings \<times> int option)" where
  "import_settings beyond root_has_handlers env =
     (let cls = load_settings env
      in case setup_logging beyond root_has_handlers cls of
           Inl e \<Rightarrow> Inl e
         | Inr level \<Rightarrow> Inr (cls, level))"

section \<open>\<open>get_llm\<close>\<close>

text \<open>
  The chat-model classes come from the client libraries; a client is the record of the
  constructor call that made it: class, \<open>api_key\<close>, \<open>model\<close> and the forwarded keyword
  arguments. The values of the keyword arguments are of any type \<open>'v\<close>.
\<close>

datatype 'v client =
    ChatOpenAI (client_api_key: "string option") (client_model: string)
      (client_kwargs: "string \<rightharpoonup> 'v")
  | ChatAnthropic (client_api_key: "string option") (client_model: string)
      (client_kwargs: "string \<rightharpoonup> 'v")

definition msg_no_keys_found :: string where
  "msg_no_keys_found = ''No API keys found. Please set OPENAI_API_KEY or ANTHROPIC_API_KEY''"

definition msg_openai_key :: string where
  "msg_openai_key = ''OPENAI_API_KEY not found in environment variables''"

definition msg_anthropic_key :: string where
  "msg_anthropic_key = ''ANTHROPIC_API_KEY not found in environment variables''"

definition msg_unsupported :: "string \<Rightarrow> string" where
  "msg_unsupported provider =
     ''Unsupported provider: '' @ provider @ ''. Use 'openai' or 'anthropic'' @ [CHR 0x27]"

definition msg_multiple_values :: "string \<Rightarrow> string" where
  "msg_multiple_values k = ''got multiple values for keyword argument '' @ [CHR 0x27] @ k @ [CHR 0x27]"

text \<open>
  The call \<open>C(api_key=k, model=m, **kwargs)\<close>. \<open>model\<close> and \<open>provider\<close> are parameters of
  \<open>get_llm\<close>, so \<open>kwargs\<close> never holds them; it can hold \<open>api_key\<close>, and then the
  interpreter raises \<open>TypeError\<close> before the constructor runs. The message is written
  without the name of the callee that Python puts in front of it.
\<close>

definition construct ::
  "(string option \<Rightarrow> string \<Rightarrow> (string \<rightharpoonup> 'v) \<Rightarrow> 'v client) \<Rightarrow>
   string option \<Rightarrow> string \<Rightarrow> (string \<rightharpoonup> 'v) \<Rightarrow> exn + 'v client" where
  "construct C k m kw =
     (if kw ''api_key'' \<noteq> None then Inl (TypeError (msg_multiple_values ''api_key''))
      else Inr (C k m kw))"

text \<open>The \<open>auto\<close> branch: the provider name after lines 83 to 90.\<close>

definition auto_select :: "Settings \<Rightarrow> string \<Rightarrow> exn + string" where
  "auto_select cls provider =
     (if provider = ''auto'' then
        (if truthy (OPENAI_API_KEY cls) then Inr ''openai''
         else if truthy (ANTHROPIC_API_KEY cls) then Inr ''anthropic''
         else Inl (ValueError msg_no_keys_found))
      else Inr provider)"

definition get_llm ::
  "Settings \<Rightarrow> string \<Rightarrow> string option \<Rightarrow> (string \<rightharpoonup> 'v) \<Rightarrow> exn + 'v client" where
  "get_llm cls provider model kwargs =
     (case validate_api_keys cls of
        Inl e \<Rightarrow> Inl e
      | Inr _ \<Rightarrow>
          (case auto_select cls provider of
             Inl e \<Rightarrow> Inl e
           | Inr provider \<Rightarrow>
               if lower provider = ''openai'' then
                 (if \<not> truthy (OPENAI_API_KEY cls) then Inl (ValueError msg_openai_key)
                  else construct ChatOpenAI (OPENAI_API_KEY cls)
                         (py_or model (DEFAULT_OPENAI_MODEL cls)) kwargs)
               else if lower provider = ''anthropic'' then
                 (if \<not> truthy (ANTHROPIC_API_KEY cls) then Inl (ValueError msg_anthropic_key)
                  else construct ChatAnthropic (ANTHROPIC_API_KEY cls)
                         (py_or model (DEFAULT_ANTHROPIC_MODEL cls)) kwargs)
               else Inl (ValueError (msg_unsupported provider))))"

section \<open>\<open>test_llm_connection\<close>\<close>







section \<open>Example environments\<close>

text \<open>
  Environments on which the module is evaluated below: no provider key, one of the two,
  both, a log level that names no level of \<open>logging\<close>, and one that names a level.
\<close>

definition env_no_keys :: environ where
  "env_no_keys = Map.empty"

definition env_openai :: environ where
  "env_openai = [''OPENAI_API_KEY'' \<mapsto> ''sk-x'']"

definition env_anthropic :: environ where
  "env_anthropic = [''ANTHROPIC_API_KEY'' \<mapsto> ''sk-ant'']"

definition env_both :: environ where
  "env_both = [''OPENAI_API_KEY'' \<mapsto> ''sk-x'', ''ANTHROPIC_API_KEY'' \<mapsto> ''sk-ant'']"

definition env_verbose :: environ where
  "env_verbose = [''OPENAI_API_KEY'' \<mapsto> ''sk-x'', ''LOG_LEVEL'' \<mapsto> ''verbose'']"

definition env_debug :: environ where
  "env_debug = [''OPENAI_API_KEY'' \<mapsto> ''sk-x'', ''LOG_LEVEL'' \<mapsto> ''Debug'']"



section \<open>Evaluation rules\<close>

lemmas case_defs =
  lower_def upper_def lower_char_def upper_char_def ascii_uppercase_def ascii_lowercase_def

lemma lower_fixed [simp]:
  "lower ''openai'' = ''openai''" "lower ''anthropic'' = ''anthropic''" "lower ''auto'' = ''auto''"
  by (simp_all add: case_defs)

lemma truthy_iff: "truthy x \<longleftrightarrow> x \<noteq> None \<and> x \<noteq> Some []"
  by (cases x) (simp_all add: truthy_def)

lemma load_settings_keys [simp]:
  "OPENAI_API_KEY (load_settings env) = env ''OPENAI_API_KEY''"
  "ANTHROPIC_API_KEY (load_settings env) = env ''ANTHROPIC_API_KEY''"
  "LANGCHAIN_API_KEY (load_settings env) = env ''LANGCHAIN_API_KEY''"
  by (simp_all add: load_settings_def getenv_def)

lemma load_settings_defaults [simp]:
  "DEFAULT_OPENAI_MODEL (load_settings env) =
     getenv_default env ''DEFAULT_OPENAI_MODEL'' ''gpt-3.5-turbo''"
  "DEFAULT_ANTHROPIC_MODEL (load_settings env) =
     getenv_default env ''DEFAULT_ANTHROPIC_MODEL'' ''claude-3-sonnet-20240229''"
  "LANGCHAIN_PROJECT (load_settings env) = getenv_default env ''LANGCHAIN_PROJECT'' ''langchain-lab''"
  "LOG_LEVEL (load_settings env) = getenv_default env ''LOG_LEVEL'' ''INFO''"
  by (simp_all add: load_settings_def)

lemmas env_defs =
  env_no_keys_def env_openai_def env_anthropic_def env_both_def env_verbose_def env_debug_def getenv_default_def

lemma validate_api_keys_passes:
  "truthy (OPENAI_API_KEY cls) \<or> truthy (ANTHROPIC_API_KEY cls) \<Longrightarrow>
     \<exists>status. validate_api_keys cls = Inr status"
  by (simp add: validate_api_keys_def Let_def)

lemma validate_api_keys_raises:
  "\<not> truthy (OPENAI_API_KEY cls) \<Longrightarrow> \<not> truthy (ANTHROPIC_API_KEY cls) \<Longrightarrow>
     validate_api_keys cls = Inl (ValueError msg_no_provider_key)"
  by (simp add: validate_api_keys_def Let_def)

lemma get_llm_no_keys:
  "\<not> truthy (OPENAI_API_KEY cls) \<Longrightarrow> \<not> truthy (ANTHROPIC_API_KEY cls) \<Longrightarrow>
     get_llm cls provider model kwargs = Inl (ValueError msg_no_provider_key)"
  by (simp add: get_llm_def validate_api_keys_raises)

lemma get_llm_validated:
  assumes "truthy (OPENAI_API_KEY cls) \<or> truthy (ANTHROPIC_API_KEY cls)"
  shows "get_llm cls provider model kwargs =
     (case auto_select cls provider of
        Inl e \<Rightarrow> Inl e
      | Inr provider \<Rightarrow>
          if lower provider = ''openai'' then
            (if \<not> truthy (OPENAI_API_KEY cls) then Inl (ValueError msg_openai_key)
             else construct ChatOpenAI (OPENAI_API_KEY cls)
                    (py_or model (DEFAULT_OPENAI_MODEL cls)) kwargs)
          else if lower provider = ''anthropic'' then
            (if \<not> truthy (ANTHROPIC_API_KEY cls) then Inl (ValueError msg_anthropic_key)
             else construct ChatAnthropic (ANTHROPIC_API_KEY cls)
                    (py_or model (DEFAULT_ANTHROPIC_MODEL cls)) kwargs)
          else Inl (ValueError (msg_unsupported provider)))"
proof -
  from validate_api_keys_passes [OF assms] obtain status
    where "validate_api_keys cls = Inr status" ..
  then show ?thesis by (simp add: get_llm_def)
qed

lemma lower_not_auto:
  "lower p = ''openai'' \<Longrightarrow> p \<noteq> ''auto''" "lower p = ''anthropic'' \<Longrightarrow> p \<noteq> ''auto''"
  by auto

lemma validate_api_keys_openai_only:
  "validate_api_keys (load_settings env_openai) =
     Inr [''openai'' \<mapsto> True, ''anthropic'' \<mapsto> False, ''langsmith'' \<mapsto> False]"
  by (simp add: validate_api_keys_def truthy_def env_defs)

lemma setup_logging_level:
  assumes "map_of logging_levels (str_upper beyond (LOG_LEVEL cls)) = Some n"
  shows "setup_logging beyond root_has_handlers cls =
     Inr (if root_has_handlers then None else Some n)"
  using assms
  by (simp add: setup_logging_def logging_getattr_def basicConfig_def checkLevel_def)

section \<open>Credential validation\<close>

text \<open>
  C3. \<open>Settings.validate_api_keys\<close> raises exactly when the OpenAI key and the Anthropic
  key are both absent, that is unset or empty. The exception is then the \<open>ValueError\<close>
  that asks for one of the two keys. Whatever the LangSmith (tracing) key is, set or
  not, it does not change whether the call raises.
\<close>

theorem validate_api_keys_error:
  "((\<exists>e. validate_api_keys cls = Inl e) \<longleftrightarrow>
      OPENAI_API_KEY cls \<in> {None, Some []} \<and> ANTHROPIC_API_KEY cls \<in> {None, Some []}) \<and>
   (\<forall>e. validate_api_keys cls = Inl e \<longrightarrow> e = ValueError msg_no_provider_key) \<and>
   (isl (validate_api_keys (cls\<lparr>LANGCHAIN_API_KEY := k\<rparr>)) \<longleftrightarrow> isl (validate_api_keys cls))"
  by (simp add: validate_api_keys_def truthy_iff Let_def)

theorem validate_api_keys_error_witness:
  "validate_api_keys (load_settings env_no_keys) = Inl (ValueError msg_no_provider_key) \<and>
   \<not> isl (validate_api_keys (load_settings env_openai))"
proof -
  have none: "OPENAI_API_KEY (load_settings env_no_keys) \<in> {None, Some []} \<and>
      ANTHROPIC_API_KEY (load_settings env_no_keys) \<in> {None, Some []}"
    by (simp add: env_defs)
  have one: "OPENAI_API_KEY (load_settings env_openai) \<notin> {None, Some []}"
    by (simp add: env_defs)
  from none validate_api_keys_error [of "load_settings env_no_keys" None]
  have "validate_api_keys (load_settings env_no_keys) = Inl (ValueError msg_no_provider_key)"
    by blast
  moreover from one validate_api_keys_error [of "load_settings env_openai" None]
  have "\<not> isl (validate_api_keys (load_settings env_openai))"
    by (metis isl_def)
  ultimately show ?thesis by simp
qed

text \<open>
  The status dictionary of C5, as stated, has a key \<open>tracing\<close>. On the environment
  that sets only the OpenAI key the dictionary that \<open>validate_api_keys\<close> returns has no
  such key: its third key is \<open>langsmith\<close>.
\<close>

theorem validate_api_keys_tracing_counterexample:
  "validate_api_keys (load_settings env_openai) =
     Inr [''openai'' \<mapsto> True, ''anthropic'' \<mapsto> False, ''langsmith'' \<mapsto> False] \<and>
   [''openai'' \<mapsto> True, ''anthropic'' \<mapsto> False, ''langsmith'' \<mapsto> False] ''tracing'' = None \<and>
   dom [''openai'' \<mapsto> True, ''anthropic'' \<mapsto> False, ''langsmith'' \<mapsto> False] \<noteq>
     {''openai'', ''anthropic'', ''tracing''}"
proof -
  let ?st = "[''openai'' \<mapsto> True, ''anthropic'' \<mapsto> False, ''langsmith'' \<mapsto> False]"
  have t: "?st ''tracing'' = None" by simp
  then have "''tracing'' \<notin> dom ?st" by (simp only: domIff not_not)
  then have "dom ?st \<noteq> {''openai'', ''anthropic'', ''tracing''}" by blast
  with t validate_api_keys_openai_only show ?thesis by simp
qed

text \<open>
  C5 (amended). When at least one provider key is present, \<open>validate_api_keys\<close>
  returns a dictionary whose keys are exactly \<open>openai\<close>, \<open>anthropic\<close> and
  \<open>langsmith\<close>; each is mapped to a boolean that is true iff the corresponding key
  (for \<open>langsmith\<close>, the tracing key \<open>LANGCHAIN_API_KEY\<close>) is set and not empty.
\<close>

theorem validate_api_keys_status:
  assumes "truthy (OPENAI_API_KEY cls) \<or> truthy (ANTHROPIC_API_KEY cls)"
  shows "\<exists>status. validate_api_keys cls = Inr status \<and>
           dom status = {''openai'', ''anthropic'', ''langsmith''} \<and>
           status ''openai'' = Some (OPENAI_API_KEY cls \<notin> {None, Some []}) \<and>
           status ''anthropic'' = Some (ANTHROPIC_API_KEY cls \<notin> {None, Some []}) \<and>
           status ''langsmith'' = Some (LANGCHAIN_API_KEY cls \<notin> {None, Some []})"
proof -
  let ?st = "[''openai'' \<mapsto> truthy (OPENAI_API_KEY cls),
              ''anthropic'' \<mapsto> truthy (ANTHROPIC_API_KEY cls),
              ''langsmith'' \<mapsto> truthy (LANGCHAIN_API_KEY cls)]"
  from assms have "validate_api_keys cls = Inr ?st"
    by (simp add: validate_api_keys_def Let_def)
  moreover have "dom ?st = {''openai'', ''anthropic'', ''langsmith''}"
    by (simp add: insert_commute)
  moreover have "?st ''openai'' = Some (OPENAI_API_KEY cls \<notin> {None, Some []})"
    "?st ''anthropic'' = Some (ANTHROPIC_API_KEY cls \<notin> {None, Some []})"
    "?st ''langsmith'' = Some (LANGCHAIN_API_KEY cls \<notin> {None, Some []})"
    by (simp_all add: truthy_iff)
  ultimately show ?thesis by blast
qed

text \<open>
  On the environment that sets only the Anthropic key.
\<close>

theorem validate_api_keys_status_witness:
  "\<exists>status. validate_api_keys (load_settings env_anthropic) = Inr status \<and>
     dom status = {''openai'', ''anthropic'', ''langsmith''} \<and>
     status ''openai'' = Some False \<and> status ''anthropic'' = Some True \<and>
     status ''langsmith'' = Some False"
proof -
  have "truthy (OPENAI_API_KEY (load_settings env_anthropic)) \<or>
      truthy (ANTHROPIC_API_KEY (load_settings env_anthropic))"
    by (simp add: truthy_def env_defs)
  from validate_api_keys_status [OF this] show ?thesis
    by (simp add: env_defs)
qed

section \<open>Resolving the provider\<close>

text \<open>
  C1. \<open>get_llm("auto")\<close> builds the OpenAI client when the OpenAI key is present,
  otherwise the Anthropic client when the Anthropic key is present, and raises
  otherwise. So with exactly one key present the client is that provider's, and the
  result is a function of the settings alone. The keyword arguments are any that do not
  name \<open>api_key\<close>; the call of the claim passes none.
\<close>

theorem get_llm_auto:
  assumes "kwargs ''api_key'' = None"
  shows "get_llm cls ''auto'' model kwargs =
     (if truthy (OPENAI_API_KEY cls) then
        Inr (ChatOpenAI (OPENAI_API_KEY cls) (py_or model (DEFAULT_OPENAI_MODEL cls)) kwargs)
      else if truthy (ANTHROPIC_API_KEY cls) then
        Inr (ChatAnthropic (ANTHROPIC_API_KEY cls) (py_or model (DEFAULT_ANTHROPIC_MODEL cls)) kwargs)
      else Inl (ValueError msg_no_provider_key))"
proof (cases "truthy (OPENAI_API_KEY cls) \<or> truthy (ANTHROPIC_API_KEY cls)")
  case True
  with assms show ?thesis
    by (auto simp add: get_llm_validated auto_select_def construct_def)
next
  case False
  then show ?thesis by (simp add: get_llm_no_keys)
qed

text \<open>
  With only the OpenAI key, with only the Anthropic key, and with neither.
\<close>

theorem get_llm_auto_witness:
  "get_llm (load_settings env_openai) ''auto'' None [''temperature'' \<mapsto> 0.7 :: real] =
     Inr (ChatOpenAI (Some ''sk-x'') ''gpt-3.5-turbo'' [''temperature'' \<mapsto> 0.7]) \<and>
   get_llm (load_settings env_anthropic) ''auto'' None (Map.empty :: string \<rightharpoonup> real) =
     Inr (ChatAnthropic (Some ''sk-ant'') ''claude-3-sonnet-20240229'' Map.empty) \<and>
   get_llm (load_settings env_no_keys) ''auto'' None (Map.empty :: string \<rightharpoonup> real) =
     Inl (ValueError msg_no_provider_key)"
  using get_llm_auto [of "[''temperature'' \<mapsto> 0.7 :: real]" "load_settings env_openai" None]
    get_llm_auto [of "Map.empty :: string \<rightharpoonup> real" "load_settings env_anthropic" None]
    get_llm_auto [of "Map.empty :: string \<rightharpoonup> real" "load_settings env_no_keys" None]
  by (simp add: env_defs py_or_def truthy_def)

text \<open>
  C2, as stated, fails twice. With no provider key, \<open>get_llm("carrot")\<close> raises the
  error of \<open>validate_api_keys\<close>, which runs first, and not the unsupported-provider
  error. And \<open>OpenAI\<close> is none of the three tokens \<open>openai\<close>, \<open>anthropic\<close>,
  \<open>auto\<close>, yet \<open>get_llm("OpenAI")\<close> returns a client.
\<close>

theorem get_llm_carrot_counterexample:
  "get_llm (load_settings env_no_keys) ''carrot'' None (Map.empty :: string \<rightharpoonup> real) =
     Inl (ValueError msg_no_provider_key) \<and>
   msg_no_provider_key \<noteq> msg_unsupported ''carrot'' \<and>
   ''OpenAI'' \<notin> {''openai'', ''anthropic'', ''auto''} \<and>
   get_llm (load_settings env_openai) ''OpenAI'' None (Map.empty :: string \<rightharpoonup> real) =
     Inr (ChatOpenAI (Some ''sk-x'') ''gpt-3.5-turbo'' Map.empty)"
proof -
  have "get_llm (load_settings env_no_keys) ''carrot'' None (Map.empty :: string \<rightharpoonup> real) =
     Inl (ValueError msg_no_provider_key)"
    by (rule get_llm_no_keys) (simp_all add: truthy_def env_defs)
  moreover have "msg_no_provider_key \<noteq> msg_unsupported ''carrot''"
    by (simp add: msg_no_provider_key_def msg_unsupported_def)
  moreover have "lower ''OpenAI'' = ''openai''"
    by (simp add: case_defs)
  then have "get_llm (load_settings env_openai) ''OpenAI'' None (Map.empty :: string \<rightharpoonup> real) =
     Inr (ChatOpenAI (Some ''sk-x'') ''gpt-3.5-turbo'' Map.empty)"
    by (simp add: get_llm_validated auto_select_def construct_def py_or_def truthy_def env_defs)
  ultimately show ?thesis by simp
qed

text \<open>
  C2 (amended). For a token other than \<open>auto\<close> whose lower-case form is neither
  \<open>openai\<close> nor \<open>anthropic\<close>, such as \<open>carrot\<close>, \<open>get_llm\<close> raises the
  unsupported-provider \<open>ValueError\<close>, naming the token, on every settings with at least
  one provider key; with no provider key it raises the missing-key \<open>ValueError\<close> of
  \<open>validate_api_keys\<close>.
\<close>

theorem get_llm_unsupported:
  assumes "provider \<noteq> ''auto''"
    and "lower provider \<noteq> ''openai''" and "lower provider \<noteq> ''anthropic''"
  shows "get_llm cls provider model kwargs =
     (if truthy (OPENAI_API_KEY cls) \<or> truthy (ANTHROPIC_API_KEY cls)
      then Inl (ValueError (msg_unsupported provider))
      else Inl (ValueError msg_no_provider_key))"
proof (cases "truthy (OPENAI_API_KEY cls) \<or> truthy (ANTHROPIC_API_KEY cls)")
  case True
  with assms show ?thesis
    by (simp add: get_llm_validated auto_select_def)
next
  case False
  then show ?thesis by (simp add: get_llm_no_keys)
qed

text \<open>
  The tokens \<open>carrot\<close> and \<open>AUTO\<close>.
\<close>

theorem get_llm_unsupported_witness:
  "get_llm (load_settings env_both) ''carrot'' None (Map.empty :: string \<rightharpoonup> real) =
     Inl (ValueError (msg_unsupported ''carrot'')) \<and>
   get_llm (load_settings env_anthropic) ''AUTO'' None (Map.empty :: string \<rightharpoonup> real) =
     Inl (ValueError (msg_unsupported ''AUTO''))"
proof -
  have c: "''carrot'' \<noteq> ''auto''" "lower ''carrot'' \<noteq> ''openai''" "lower ''carrot'' \<noteq> ''anthropic''"
    by (simp_all add: case_defs)
  have a: "''AUTO'' \<noteq> ''auto''" "lower ''AUTO'' \<noteq> ''openai''" "lower ''AUTO'' \<noteq> ''anthropic''"
    by (simp_all add: case_defs)
  from get_llm_unsupported [OF c, of "load_settings env_both" None "Map.empty :: string \<rightharpoonup> real"]
    get_llm_unsupported [OF a, of "load_settings env_anthropic" None "Map.empty :: string \<rightharpoonup> real"]
  show ?thesis
    by (simp add: truthy_def env_defs)
qed

text \<open>
  C4. \<open>get_llm("openai")\<close> raises a missing-key \<open>ValueError\<close> when the OpenAI key
  is absent: the one of line 94 when the Anthropic key is present, the one of
  \<open>validate_api_keys\<close> when it is absent too. When the OpenAI key is present the call
  returns the OpenAI client, and the Anthropic key, whatever it is changed to, does not
  change the result. The same holds for \<open>anthropic\<close> with the two keys exchanged.
\<close>

theorem get_llm_explicit:
  assumes "kwargs ''api_key'' = None"
  shows
    "(\<not> truthy (OPENAI_API_KEY cls) \<longrightarrow>
        get_llm cls ''openai'' model kwargs =
          Inl (ValueError (if truthy (ANTHROPIC_API_KEY cls) then msg_openai_key
                           else msg_no_provider_key))) \<and>
     (truthy (OPENAI_API_KEY cls) \<longrightarrow>
        get_llm cls ''openai'' model kwargs =
          Inr (ChatOpenAI (OPENAI_API_KEY cls) (py_or model (DEFAULT_OPENAI_MODEL cls)) kwargs) \<and>
        get_llm (cls\<lparr>ANTHROPIC_API_KEY := a\<rparr>) ''openai'' model kwargs =
          get_llm cls ''openai'' model kwargs) \<and>
     (\<not> truthy (ANTHROPIC_API_KEY cls) \<longrightarrow>
        get_llm cls ''anthropic'' model kwargs =
          Inl (ValueError (if truthy (OPENAI_API_KEY cls) then msg_anthropic_key
                           else msg_no_provider_key))) \<and>
     (truthy (ANTHROPIC_API_KEY cls) \<longrightarrow>
        get_llm cls ''anthropic'' model kwargs =
          Inr (ChatAnthropic (ANTHROPIC_API_KEY cls) (py_or model (DEFAULT_ANTHROPIC_MODEL cls))
                 kwargs) \<and>
        get_llm (cls\<lparr>OPENAI_API_KEY := a\<rparr>) ''anthropic'' model kwargs =
          get_llm cls ''anthropic'' model kwargs)"
proof -
  have o_missing: "get_llm cls ''openai'' model kwargs =
      Inl (ValueError (if truthy (ANTHROPIC_API_KEY cls) then msg_openai_key else msg_no_provider_key))"
    if "\<not> truthy (OPENAI_API_KEY cls)"
    using that by (cases "truthy (ANTHROPIC_API_KEY cls)")
      (simp_all add: get_llm_validated get_llm_no_keys auto_select_def)
  have a_missing: "get_llm cls ''anthropic'' model kwargs =
      Inl (ValueError (if truthy (OPENAI_API_KEY cls) then msg_anthropic_key else msg_no_provider_key))"
    if "\<not> truthy (ANTHROPIC_API_KEY cls)"
    using that by (cases "truthy (OPENAI_API_KEY cls)")
      (simp_all add: get_llm_validated get_llm_no_keys auto_select_def)
  have o_present: "get_llm c ''openai'' model kwargs =
      Inr (ChatOpenAI (OPENAI_API_KEY c) (py_or model (DEFAULT_OPENAI_MODEL c)) kwargs)"
    if "truthy (OPENAI_API_KEY c)" for c
    using that assms by (simp add: get_llm_validated auto_select_def construct_def)
  have a_present: "get_llm c ''anthropic'' model kwargs =
      Inr (ChatAnthropic (ANTHROPIC_API_KEY c) (py_or model (DEFAULT_ANTHROPIC_MODEL c)) kwargs)"
    if "truthy (ANTHROPIC_API_KEY c)" for c
    using that assms by (simp add: get_llm_validated auto_select_def construct_def)
  show ?thesis
    by (simp add: o_missing a_missing o_present a_present)
qed

text \<open>
  On the four environments: no key, either key, both keys.
\<close>

theorem get_llm_explicit_witness:
  "get_llm (load_settings env_anthropic) ''openai'' None (Map.empty :: string \<rightharpoonup> real) =
     Inl (ValueError msg_openai_key) \<and>
   get_llm (load_settings env_no_keys) ''openai'' None (Map.empty :: string \<rightharpoonup> real) =
     Inl (ValueError msg_no_provider_key) \<and>
   get_llm (load_settings env_both) ''openai'' None (Map.empty :: string \<rightharpoonup> real) =
     Inr (ChatOpenAI (Some ''sk-x'') ''gpt-3.5-turbo'' Map.empty) \<and>
   get_llm (load_settings env_openai) ''openai'' None (Map.empty :: string \<rightharpoonup> real) =
     Inr (ChatOpenAI (Some ''sk-x'') ''gpt-3.5-turbo'' Map.empty) \<and>
   get_llm (load_settings env_openai) ''anthropic'' None (Map.empty :: string \<rightharpoonup> real) =
     Inl (ValueError msg_anthropic_key) \<and>
   get_llm (load_settings env_both) ''anthropic'' None (Map.empty :: string \<rightharpoonup> real) =
     Inr (ChatAnthropic (Some ''sk-ant'') ''claude-3-sonnet-20240229'' Map.empty)"
  using get_llm_explicit [of "Map.empty :: string \<rightharpoonup> real" "load_settings env_anthropic" None None]
    get_llm_explicit [of "Map.empty :: string \<rightharpoonup> real" "load_settings env_no_keys" None None]
    get_llm_explicit [of "Map.empty :: string \<rightharpoonup> real" "load_settings env_both" None None]
    get_llm_explicit [of "Map.empty :: string \<rightharpoonup> real" "load_settings env_openai" None None]
  by (simp add: truthy_def env_defs py_or_def)

text \<open>
  C9. The provider token is compared in lower case: a token whose lower-case form is
  \<open>openai\<close> (or \<open>anthropic\<close>) gives the result of \<open>get_llm("openai")\<close> (or
  \<open>get_llm("anthropic")\<close>), on every settings. \<open>auto\<close> is compared as it is written:
  on settings that pass validation \<open>get_llm("AUTO")\<close> selects no provider and raises
  the unsupported-provider error.
\<close>

theorem get_llm_case_insensitive:
  "(lower provider = ''openai'' \<longrightarrow>
      get_llm cls provider model kwargs = get_llm cls ''openai'' model kwargs) \<and>
   (lower provider = ''anthropic'' \<longrightarrow>
      get_llm cls provider model kwargs = get_llm cls ''anthropic'' model kwargs) \<and>
   (truthy (OPENAI_API_KEY cls) \<or> truthy (ANTHROPIC_API_KEY cls) \<longrightarrow>
      get_llm cls ''AUTO'' model kwargs = Inl (ValueError (msg_unsupported ''AUTO'')))"
proof -
  have auto: "auto_select cls p = Inr p" if "p \<noteq> ''auto''" for p
    using that by (simp add: auto_select_def)
  have "get_llm cls provider model kwargs = get_llm cls ''openai'' model kwargs"
    if "lower provider = ''openai''"
    using that lower_not_auto(1) [OF that]
    by (cases "validate_api_keys cls") (simp_all add: get_llm_def auto)
  moreover have "get_llm cls provider model kwargs = get_llm cls ''anthropic'' model kwargs"
    if "lower provider = ''anthropic''"
    using that lower_not_auto(2) [OF that]
    by (cases "validate_api_keys cls") (simp_all add: get_llm_def auto)
  moreover have "lower ''AUTO'' = ''auto''"
    by (simp add: case_defs)
  then have "get_llm cls ''AUTO'' model kwargs = Inl (ValueError (msg_unsupported ''AUTO''))"
    if "truthy (OPENAI_API_KEY cls) \<or> truthy (ANTHROPIC_API_KEY cls)"
    using that by (simp add: get_llm_validated auto)
  ultimately show ?thesis by blast
qed

text \<open>
  \<open>OpenAI\<close> and \<open>ANTHROPIC\<close> with both keys; \<open>AUTO\<close> against \<open>auto\<close> with
  only the Anthropic key.
\<close>

theorem get_llm_case_insensitive_witness:
  "get_llm (load_settings env_both) ''OpenAI'' None (Map.empty :: string \<rightharpoonup> real) =
     Inr (ChatOpenAI (Some ''sk-x'') ''gpt-3.5-turbo'' Map.empty) \<and>
   get_llm (load_settings env_both) ''ANTHROPIC'' None (Map.empty :: string \<rightharpoonup> real) =
     Inr (ChatAnthropic (Some ''sk-ant'') ''claude-3-sonnet-20240229'' Map.empty) \<and>
   get_llm (load_settings env_anthropic) ''AUTO'' None (Map.empty :: string \<rightharpoonup> real) =
     Inl (ValueError (msg_unsupported ''AUTO'')) \<and>
   get_llm (load_settings env_anthropic) ''auto'' None (Map.empty :: string \<rightharpoonup> real) =
     Inr (ChatAnthropic (Some ''sk-ant'') ''claude-3-sonnet-20240229'' Map.empty)"
proof -
  have l: "lower ''OpenAI'' = ''openai''" "lower ''ANTHROPIC'' = ''anthropic''"
    by (simp_all add: case_defs)
  have e: "get_llm (load_settings env_both) ''openai'' None (Map.empty :: string \<rightharpoonup> real) =
      Inr (ChatOpenAI (Some ''sk-x'') ''gpt-3.5-turbo'' Map.empty)"
    "get_llm (load_settings env_both) ''anthropic'' None (Map.empty :: string \<rightharpoonup> real) =
      Inr (ChatAnthropic (Some ''sk-ant'') ''claude-3-sonnet-20240229'' Map.empty)"
    "get_llm (load_settings env_anthropic) ''auto'' None (Map.empty :: string \<rightharpoonup> real) =
      Inr (ChatAnthropic (Some ''sk-ant'') ''claude-3-sonnet-20240229'' Map.empty)"
    by (simp_all add: get_llm_validated auto_select_def construct_def py_or_def truthy_def env_defs)
  have t: "truthy (ANTHROPIC_API_KEY (load_settings env_anthropic))"
    by (simp add: truthy_def env_defs)
  from l e t
    get_llm_case_insensitive [of "''OpenAI''" "load_settings env_both" None "Map.empty :: string \<rightharpoonup> real"]
    get_llm_case_insensitive [of "''ANTHROPIC''" "load_settings env_both" None "Map.empty :: string \<rightharpoonup> real"]
    get_llm_case_insensitive [of "''AUTO''" "load_settings env_anthropic" None "Map.empty :: string \<rightharpoonup> real"]
  show ?thesis by simp
qed

section \<open>Building the client\<close>

text \<open>
  C6, as stated, fails: an override is given, the empty string, and the client is
  built with the default model; the provider is concrete and its key is absent, and no
  client is built; an option is named \<open>api_key\<close>, and the call raises
  \<open>TypeError\<close> instead of forwarding it.
\<close>

theorem get_llm_model_counterexample:
  "get_llm (load_settings env_openai) ''openai'' (Some '''') [''temperature'' \<mapsto> 0.7 :: real] =
     Inr (ChatOpenAI (Some ''sk-x'') ''gpt-3.5-turbo'' [''temperature'' \<mapsto> 0.7]) \<and>
   ''gpt-3.5-turbo'' \<noteq> '''' \<and>
   get_llm (load_settings env_anthropic) ''openai'' None [''temperature'' \<mapsto> 0.7 :: real] =
     Inl (ValueError msg_openai_key) \<and>
   get_llm (load_settings env_openai) ''openai'' None [''api_key'' \<mapsto> 0.7 :: real] =
     Inl (TypeError (msg_multiple_values ''api_key''))"
  by (simp add: get_llm_validated auto_select_def construct_def py_or_def truthy_def env_defs)

text \<open>
  C6 (amended). On settings where the provider's key is present, and with keyword
  arguments none of which is named \<open>api_key\<close>: with no model override the client is
  built with the default model of the settings for that provider; with an override
  that is not empty it is built with the override; the keyword arguments are forwarded
  as they are.
\<close>

theorem get_llm_model:
  assumes "kwargs ''api_key'' = None"
  shows
    "(truthy (OPENAI_API_KEY cls) \<longrightarrow>
        get_llm cls ''openai'' None kwargs =
          Inr (ChatOpenAI (OPENAI_API_KEY cls) (DEFAULT_OPENAI_MODEL cls) kwargs) \<and>
        (m \<noteq> [] \<longrightarrow> get_llm cls ''openai'' (Some m) kwargs =
          Inr (ChatOpenAI (OPENAI_API_KEY cls) m kwargs))) \<and>
     (truthy (ANTHROPIC_API_KEY cls) \<longrightarrow>
        get_llm cls ''anthropic'' None kwargs =
          Inr (ChatAnthropic (ANTHROPIC_API_KEY cls) (DEFAULT_ANTHROPIC_MODEL cls) kwargs) \<and>
        (m \<noteq> [] \<longrightarrow> get_llm cls ''anthropic'' (Some m) kwargs =
          Inr (ChatAnthropic (ANTHROPIC_API_KEY cls) m kwargs)))"
  using assms
  by (simp add: get_llm_validated auto_select_def construct_def py_or_def)

text \<open>
  The scenario of the specification: only the OpenAI key, temperature 0.7.
\<close>

theorem get_llm_model_witness:
  "get_llm (load_settings env_openai) ''openai'' None [''temperature'' \<mapsto> 0.7 :: real] =
     Inr (ChatOpenAI (Some ''sk-x'') ''gpt-3.5-turbo'' [''temperature'' \<mapsto> 0.7]) \<and>
   get_llm (load_settings env_openai) ''openai'' (Some ''gpt-4'') [''temperature'' \<mapsto> 0.7 :: real] =
     Inr (ChatOpenAI (Some ''sk-x'') ''gpt-4'' [''temperature'' \<mapsto> 0.7]) \<and>
   get_llm (load_settings env_both) ''anthropic'' None [''temperature'' \<mapsto> 0.7 :: real] =
     Inr (ChatAnthropic (Some ''sk-ant'') ''claude-3-sonnet-20240229'' [''temperature'' \<mapsto> 0.7])"
  using get_llm_model [of "[''temperature'' \<mapsto> 0.7 :: real]" "load_settings env_openai" "''gpt-4''"]
    get_llm_model [of "[''temperature'' \<mapsto> 0.7 :: real]" "load_settings env_both" "''gpt-4''"]
  by (simp add: truthy_def env_defs)

text \<open>
  C10. An empty model override is read as no override: \<open>get_llm(provider, model="")\<close>
  is \<open>get_llm(provider)\<close>, for every provider token and settings; with the
  provider's key present the client has the default model of the settings.
\<close>

theorem get_llm_empty_model:
  "get_llm cls provider (Some '''') kwargs = get_llm cls provider None kwargs \<and>
   (kwargs ''api_key'' = None \<and> truthy (OPENAI_API_KEY cls) \<longrightarrow>
      get_llm cls ''openai'' (Some '''') kwargs =
        Inr (ChatOpenAI (OPENAI_API_KEY cls) (DEFAULT_OPENAI_MODEL cls) kwargs)) \<and>
   (kwargs ''api_key'' = None \<and> truthy (ANTHROPIC_API_KEY cls) \<longrightarrow>
      get_llm cls ''anthropic'' (Some '''') kwargs =
        Inr (ChatAnthropic (ANTHROPIC_API_KEY cls) (DEFAULT_ANTHROPIC_MODEL cls) kwargs))"
proof -
  have empty: "py_or (Some '''') d = py_or None d" for d
    by (simp add: py_or_def)
  have "get_llm cls provider (Some '''') kwargs = get_llm cls provider None kwargs"
    by (simp only: get_llm_def empty)
  then show ?thesis
    by (simp add: get_llm_validated auto_select_def construct_def py_or_def)
qed

text \<open>
  With both keys and the default models of the source, neither of them empty.
\<close>

theorem get_llm_empty_model_witness:
  "get_llm (load_settings env_both) ''openai'' (Some []) (Map.empty :: string \<rightharpoonup> real) =
     Inr (ChatOpenAI (Some ''sk-x'') ''gpt-3.5-turbo'' Map.empty) \<and>
   get_llm (load_settings env_both) ''anthropic'' (Some []) (Map.empty :: string \<rightharpoonup> real) =
     Inr (ChatAnthropic (Some ''sk-ant'') ''claude-3-sonnet-20240229'' Map.empty)"
proof -
  let ?cls = "load_settings env_both"
  have keys: "truthy (OPENAI_API_KEY ?cls)" "truthy (ANTHROPIC_API_KEY ?cls)"
    by (simp_all add: truthy_def env_defs)
  have defaults: "DEFAULT_OPENAI_MODEL ?cls = ''gpt-3.5-turbo''"
    "DEFAULT_ANTHROPIC_MODEL ?cls = ''claude-3-sonnet-20240229''"
    "OPENAI_API_KEY ?cls = Some ''sk-x''" "ANTHROPIC_API_KEY ?cls = Some ''sk-ant''"
    by (simp_all add: env_defs)
  from keys get_llm_empty_model [of ?cls "''openai''" "Map.empty :: string \<rightharpoonup> real"]
  have "get_llm ?cls ''openai'' (Some []) (Map.empty :: string \<rightharpoonup> real) =
      Inr (ChatOpenAI (OPENAI_API_KEY ?cls) (DEFAULT_OPENAI_MODEL ?cls) Map.empty)"
    "get_llm ?cls ''anthropic'' (Some []) (Map.empty :: string \<rightharpoonup> real) =
      Inr (ChatAnthropic (ANTHROPIC_API_KEY ?cls) (DEFAULT_ANTHROPIC_MODEL ?cls) Map.empty)"
    by blast+
  then show ?thesis by (simp only: defaults)
qed

section \<open>Testing the connection\<close>



section \<open>Importing the module\<close>

text \<open>
  C8, as stated, fails: with \<open>LOG_LEVEL=verbose\<close> in the environment,
  \<open>getattr(logging, "VERBOSE")\<close> in \<open>Settings.setup_logging()\<close>, on the last line of
  the module, raises and the import fails, whether the root logger has handlers or not.
\<close>

theorem import_settings_counterexample:
  "import_settings id False env_verbose = Inl (AttributeError (msg_no_attribute ''VERBOSE'')) \<and>
   import_settings id True env_verbose = Inl (AttributeError (msg_no_attribute ''VERBOSE''))"
proof -
  have "str_upper id ''verbose'' = ''VERBOSE''"
    by (simp add: str_upper_def isascii_def case_defs)
  then show ?thesis
    by (simp add: import_settings_def setup_logging_def logging_getattr_def logging_levels_def
        env_defs)
qed

text \<open>
  C8 (amended). The import of the module does not fail on any environment in which
  \<open>LOG_LEVEL\<close> is not set, or is set to a value whose upper-case form names a level of
  \<open>logging\<close>, such as \<open>DEBUG\<close>, \<open>INFO\<close>, \<open>WARNING\<close>, \<open>ERROR\<close> and \<open>CRITICAL\<close> in
  any letter case. The settings are then those of the class body, which has no failing
  branch: each key is the environment's value or \<open>None\<close>, and a missing variable gives
  the default (\<open>langchain-lab\<close>, tracing and debug off, \<open>INFO\<close>).
\<close>

theorem import_settings_ok:
  "(map_of logging_levels (str_upper beyond (getenv_default env ''LOG_LEVEL'' ''INFO'')) = Some n \<longrightarrow>
      import_settings beyond root_has_handlers env =
        Inr (load_settings env, if root_has_handlers then None else Some n)) \<and>
   (env ''LOG_LEVEL'' = None \<longrightarrow>
      import_settings beyond root_has_handlers env =
        Inr (load_settings env, if root_has_handlers then None else Some 20)) \<and>
   (env ''LOG_LEVEL'' = Some v \<and> isascii v \<and>
    upper v \<in> {''DEBUG'', ''INFO'', ''WARNING'', ''ERROR'', ''CRITICAL''} \<longrightarrow>
      (\<exists>level. import_settings beyond root_has_handlers env = Inr (load_settings env, level))) \<and>
   OPENAI_API_KEY (load_settings env) = env ''OPENAI_API_KEY'' \<and>
   ANTHROPIC_API_KEY (load_settings env) = env ''ANTHROPIC_API_KEY'' \<and>
   LANGCHAIN_API_KEY (load_settings env) = env ''LANGCHAIN_API_KEY'' \<and>
   (env ''LANGCHAIN_PROJECT'' = None \<longrightarrow> LANGCHAIN_PROJECT (load_settings env) = ''langchain-lab'') \<and>
   (env ''LANGCHAIN_TRACING_V2'' = None \<longrightarrow> \<not> LANGCHAIN_TRACING_V2 (load_settings env)) \<and>
   (env ''DEBUG'' = None \<longrightarrow> \<not> DEBUG (load_settings env)) \<and>
   (env ''LOG_LEVEL'' = None \<longrightarrow> LOG_LEVEL (load_settings env) = ''INFO'')"
proof -
  have level: "import_settings beyond root_has_handlers env =
      Inr (load_settings env, if root_has_handlers then None else Some k)"
    if "map_of logging_levels (str_upper beyond (getenv_default env ''LOG_LEVEL'' ''INFO'')) = Some k"
    for k
    using that by (simp add: import_settings_def Let_def setup_logging_level)
  have info: "str_upper beyond ''INFO'' = ''INFO''"
    by (simp add: str_upper_def isascii_def case_defs)
  have unset: "import_settings beyond root_has_handlers env =
      Inr (load_settings env, if root_has_handlers then None else Some 20)"
    if "env ''LOG_LEVEL'' = None"
    using that by (intro level) (simp add: getenv_default_def info logging_levels_def)
  have five: "\<exists>level. import_settings beyond root_has_handlers env = Inr (load_settings env, level)"
    if "env ''LOG_LEVEL'' = Some v" "isascii v"
      "upper v \<in> {''DEBUG'', ''INFO'', ''WARNING'', ''ERROR'', ''CRITICAL''}"
  proof -
    from that(3) obtain k where "map_of logging_levels (upper v) = Some k"
      by (auto simp add: logging_levels_def)
    with that(1,2) have "map_of logging_levels
        (str_upper beyond (getenv_default env ''LOG_LEVEL'' ''INFO'')) = Some k"
      by (simp add: getenv_default_def str_upper_def)
    from level [OF this] show ?thesis by blast
  qed
  have "lower ''false'' = ''false''"
    by (simp add: case_defs)
  then have flags: "env ''LANGCHAIN_TRACING_V2'' = None \<longrightarrow> \<not> LANGCHAIN_TRACING_V2 (load_settings env)"
    "env ''DEBUG'' = None \<longrightarrow> \<not> DEBUG (load_settings env)"
    by (simp_all add: load_settings_def getenv_default_def)
  from level unset five flags show ?thesis
    by (simp add: getenv_default_def)
qed

text \<open>
  With \<open>LOG_LEVEL\<close> not set, and with \<open>LOG_LEVEL=Debug\<close>.
\<close>

theorem import_settings_ok_witness:
  "import_settings id False env_openai = Inr (load_settings env_openai, Some 20) \<and>
   import_settings id True env_openai = Inr (load_settings env_openai, None) \<and>
   import_settings id False env_debug = Inr (load_settings env_debug, Some 10) \<and>
   LANGCHAIN_PROJECT (load_settings env_openai) = ''langchain-lab'' \<and>
   \<not> LANGCHAIN_TRACING_V2 (load_settings env_openai) \<and>
   \<not> DEBUG (load_settings env_openai) \<and>
   LOG_LEVEL (load_settings env_openai) = ''INFO'' \<and>
   ANTHROPIC_API_KEY (load_settings env_openai) = None"
proof -
  have d: "map_of logging_levels (str_upper id (getenv_default env_debug ''LOG_LEVEL'' ''INFO'')) =
      Some 10"
    by (simp add: env_defs str_upper_def isascii_def case_defs logging_levels_def)
  from d import_settings_ok [of id env_openai 20 False "''INFO''"]
    import_settings_ok [of id env_openai 20 True "''INFO''"]
    import_settings_ok [of id env_debug 10 False "''Debug''"]
  show ?thesis
    by (simp add: env_defs)
qed

end
